theory Spec2Isabelle
  imports Complex_Main "HOL-Library.Word"
begin

section \<open>The bge-m3 mock embedding server (docker/bge-m3-mock/server.py)\<close>

text \<open>
  The server is one Python module: a module-level constant \<open>EMBEDDING_DIM\<close> read
  from the process environment, the generator \<open>generate_embedding\<close>, the normaliser
  \<open>normalize_inputs\<close> and four Flask views. The embedding below follows the module
  top to bottom. What the module imports from the Python runtime (\<open>hashlib\<close>, the
  Mersenne Twister core of \<open>random\<close>, the built-ins \<open>int\<close> and \<open>repr\<close>) is not code
  of the repository; it enters as a record of functions, and every theorem holds for
  every such record.
\<close>

subsection \<open>Values\<close>

text \<open>
  A Python \<open>str\<close> is a sequence of code points (numbers below \<open>0x110000\<close>), lone
  surrogates included: the JSON text \<^verbatim>\<open>"\ud800"\<close> decodes to a one-element
  \<open>str\<close>. \<open>bytes\<close> is a sequence of octets.
\<close>

type_synonym pystr = "nat list"
type_synonym bytes = "8 word list"

definition ascii :: "string \<Rightarrow> pystr" where
  "ascii s = map of_char s"

text \<open>The exceptions the module can raise.\<close>

datatype error = AttributeError | UnicodeEncodeError | ValueError

text \<open>
  What \<open>request.get_json\<close> hands to the views: a decoded JSON document. A JSON
  object is a Python \<open>dict\<close>, kept as the list of its items in insertion order (the
  keys of a decoded object are distinct); \<open>JNull\<close> is \<open>None\<close>. The type \<open>'f\<close> is
  Python's \<open>float\<close>, which the module never computes with on the request side.
\<close>

datatype 'f json =
    JNull
  | JBool bool
  | JInt int
  | JFloat 'f
  | JStr pystr
  | JList "'f json list"
  | JDict "(pystr \<times> 'f json) list"

subsection \<open>The Python runtime the module imports\<close>

text \<open>
  \<^item> \<open>sha256\<close>: \<open>hashlib.sha256(b).digest()\<close>, read as a 256-bit big-endian number;
  \<^item> \<open>seed_rng\<close>: the generator state that \<open>random.Random(seed)\<close> builds from a
    non-negative integer seed;
  \<^item> \<open>genrand_uint32\<close>: one step of the generator core, a 32-bit output and the next state;
  \<^item> \<open>int_of_str\<close>: the built-in \<open>int(s)\<close> on a \<open>str\<close>, which raises \<open>ValueError\<close>
    on text that is no integer literal;
  \<^item> \<open>float_repr\<close>, \<open>str_repr\<close>: \<open>repr\<close> of a \<open>float\<close> and of a \<open>str\<close>;
  \<^item> \<open>float_bool\<close>: the truth value of a \<open>float\<close> (false exactly for zero).
\<close>

record ('g, 'f) runtime =
  sha256 :: "bytes \<Rightarrow> 256 word"
  seed_rng :: "nat \<Rightarrow> 'g"
  genrand_uint32 :: "'g \<Rightarrow> 32 word \<times> 'g"
  int_of_str :: "pystr \<Rightarrow> error + int"
  float_repr :: "'f \<Rightarrow> pystr"
  str_repr :: "pystr \<Rightarrow> pystr"
  float_bool :: "'f \<Rightarrow> bool"

subsection \<open>\<open>str.encode("utf-8")\<close>\<close>

text \<open>
  The strict UTF-8 encoder: one to four octets per code point, and
  \<open>UnicodeEncodeError\<close> on a surrogate (\<open>0xD800\<close> to \<open>0xDFFF\<close>). Its value on a
  number from \<open>0x110000\<close> on is immaterial: no \<open>str\<close> holds one.
\<close>

definition is_surrogate :: "nat \<Rightarrow> bool" where
  "is_surrogate c = (55296 \<le> c \<and> c \<le> 57343)"

definition utf8_char :: "nat \<Rightarrow> error + bytes" where
  "utf8_char c =
     (if c < 128 then Inr [of_nat c]
      else if c < 2048 then Inr [of_nat (192 + c div 64), of_nat (128 + c mod 64)]
      else if c < 65536 then
        (if is_surrogate c then Inl UnicodeEncodeError
         else Inr [of_nat (224 + c div 4096), of_nat (128 + c div 64 mod 64),
                   of_nat (128 + c mod 64)])
      else Inr [of_nat (240 + c div 262144), of_nat (128 + c div 4096 mod 64),
                of_nat (128 + c div 64 mod 64), of_nat (128 + c mod 64)])"

fun encode_utf8 :: "pystr \<Rightarrow> error + bytes" where
  "encode_utf8 [] = Inr []"
| "encode_utf8 (c # cs) =
     (case utf8_char c of
        Inl e \<Rightarrow> Inl e
      | Inr b \<Rightarrow> (case encode_utf8 cs of Inl e \<Rightarrow> Inl e | Inr bs \<Rightarrow> Inr (b @ bs)))"

text \<open>The strings the encoder accepts: those without a surrogate.\<close>

definition encodable :: "pystr \<Rightarrow> bool" where
  "encodable s = list_all (\<lambda>c. \<not> is_surrogate c) s"

subsection \<open>\<open>random.Random\<close>: \<open>random()\<close> and \<open>uniform(a, b)\<close>\<close>

text \<open>
  \<open>random()\<close> takes two 32-bit outputs, keeps the top 27 and 26 bits and returns
  \<open>(a * 67108864.0 + b) * (1.0 / 9007199254740992.0)\<close>; \<open>uniform(a, b)\<close> is
  \<open>a + (b - a) * self.random()\<close>. Floats are modelled by the real number they denote.
  At the one call site, \<open>uniform(-1.0, 1.0)\<close>, no operation rounds: with
  \<open>k = a * 2^26 + b < 2^53\<close> the values \<open>k\<close>, \<open>k / 2^53\<close>, \<open>2 * (k / 2^53)\<close> and
  \<open>(k - 2^52) / 2^52\<close> are all doubles (lemma \<open>uniform_unit_dyadic\<close> below).
\<close>

definition random_random :: "('g, 'f) runtime \<Rightarrow> 'g \<Rightarrow> real \<times> 'g" where
  "random_random L g =
     (case genrand_uint32 L g of (w1, g1) \<Rightarrow>
      case genrand_uint32 L g1 of (w2, g2) \<Rightarrow>
        let a = drop_bit 5 w1; b = drop_bit 6 w2
        in ((real (unat a) * 67108864 + real (unat b)) * (1 / 9007199254740992), g2))"

definition uniform :: "('g, 'f) runtime \<Rightarrow> real \<Rightarrow> real \<Rightarrow> 'g \<Rightarrow> real \<times> 'g" where
  "uniform L a b g = (case random_random L g of (r, g') \<Rightarrow> (a + (b - a) * r, g'))"

subsection \<open>\<open>generate_embedding\<close>\<close>

text \<open>\<open>range(n)\<close> for a Python integer: empty when \<open>n \<le> 0\<close>.\<close>

definition py_range :: "int \<Rightarrow> int list" where
  "py_range n = [0..n - 1]"

text \<open>
  The comprehension \<open>[rng.uniform(-1.0, 1.0) for _ in range(EMBEDDING_DIM)]\<close>: one
  draw per element of the range, each from the state the previous draw left.
\<close>

fun draw_each :: "('g, 'f) runtime \<Rightarrow> int list \<Rightarrow> 'g \<Rightarrow> real list" where
  "draw_each L [] rng = []"
| "draw_each L (i # is) rng =
     (case uniform L (- 1) 1 rng of (x, rng') \<Rightarrow> x # draw_each L is rng')"

text \<open>
  \<open>int(hashlib.sha256(data).hexdigest(), 16)\<close> writes the digest as 64 hexadecimal
  digits and reads them back: the digest as a number.
\<close>

definition generate_embedding :: "('g, 'f) runtime \<Rightarrow> int \<Rightarrow> pystr \<Rightarrow> error + real list" where
  "generate_embedding L EMBEDDING_DIM text =
     (case encode_utf8 text of
        Inl e \<Rightarrow> Inl e
      | Inr data \<Rightarrow>
          let seed = unat (sha256 L data);
              rng = seed_rng L seed
          in Inr (draw_each L (py_range EMBEDDING_DIM) rng))"

subsection \<open>\<open>str(item)\<close> on a decoded JSON value\<close>

text \<open>
  \<open>str\<close> of a \<open>str\<close> is the string itself; of anything else it is its \<open>repr\<close>:
  \<open>None\<close>, \<open>True\<close>, \<open>False\<close>, the decimal digits of an \<open>int\<close>, and for containers the
  \<open>repr\<close> of the elements between brackets, separated by a comma and a space. It
  raises on none of the values a decoded JSON document is made of.
\<close>

fun digits :: "nat \<Rightarrow> pystr" where
  "digits n = (if n < 10 then [48 + n] else digits (n div 10) @ [48 + n mod 10])"

declare digits.simps [simp del]

definition int_repr :: "int \<Rightarrow> pystr" where
  "int_repr i = (if i < 0 then 45 # digits (nat (- i)) else digits (nat i))"

fun join :: "pystr \<Rightarrow> pystr list \<Rightarrow> pystr" where
  "join sep [] = []"
| "join sep [x] = x"
| "join sep (x # y # ys) = x @ sep @ join sep (y # ys)"

fun py_repr :: "('g, 'f) runtime \<Rightarrow> 'f json \<Rightarrow> pystr" where
  "py_repr L JNull = ascii ''None''"
| "py_repr L (JBool b) = (if b then ascii ''True'' else ascii ''False'')"
| "py_repr L (JInt i) = int_repr i"
| "py_repr L (JFloat f) = float_repr L f"
| "py_repr L (JStr s) = str_repr L s"
| "py_repr L (JList xs) = ascii ''['' @ join (ascii '', '') (map (py_repr L) xs) @ ascii '']''"
| "py_repr L (JDict kvs) =
     ascii ''{'' @
     join (ascii '', '') (map (\<lambda>(k, v). str_repr L k @ ascii '': '' @ py_repr L v) kvs) @
     ascii ''}''"

definition py_str :: "('g, 'f) runtime \<Rightarrow> 'f json \<Rightarrow> pystr" where
  "py_str L item = (case item of JStr s \<Rightarrow> s | _ \<Rightarrow> py_repr L item)"

text \<open>The truth value of a value, as \<open>x or {}\<close> tests it.\<close>

fun py_bool :: "('g, 'f) runtime \<Rightarrow> 'f json \<Rightarrow> bool" where
  "py_bool L JNull = False"
| "py_bool L (JBool b) = b"
| "py_bool L (JInt i) = (i \<noteq> 0)"
| "py_bool L (JFloat f) = float_bool L f"
| "py_bool L (JStr s) = (s \<noteq> [])"
| "py_bool L (JList xs) = (xs \<noteq> [])"
| "py_bool L (JDict kvs) = (kvs \<noteq> [])"

definition py_or :: "('g, 'f) runtime \<Rightarrow> 'f json \<Rightarrow> 'f json \<Rightarrow> 'f json" where
  "py_or L x y = (if py_bool L x then x else y)"

subsection \<open>\<open>normalize_inputs\<close>\<close>

text \<open>
  \<open>payload.get("inputs", [])\<close> is a method of \<open>dict\<close>; on a value of any other type
  the attribute lookup raises \<open>AttributeError\<close>.
\<close>

definition normalize_inputs :: "('g, 'f) runtime \<Rightarrow> 'f json \<Rightarrow> error + pystr list" where
  "normalize_inputs L payload =
     (case payload of
        JDict kvs \<Rightarrow>
          (let inputs = (case map_of kvs (ascii ''inputs'') of None \<Rightarrow> JList [] | Some v \<Rightarrow> v)
           in case inputs of
                JStr s \<Rightarrow> Inr [s]
              | JList items \<Rightarrow> Inr (map (py_str L) items)
              | _ \<Rightarrow> Inr [])
      | _ \<Rightarrow> Inl AttributeError)"

subsection \<open>The views\<close>

text \<open>
  A view gets the value of \<open>request.get_json(force=True, silent=True)\<close>: the decoded
  body, or \<open>None\<close> (\<open>JNull\<close>) when the body is missing or is not JSON. It returns its
  response body, or raises. A comprehension that calls a function which may raise stops
  at the first exception.
\<close>

fun embed_each :: "('a \<Rightarrow> error + 'b) \<Rightarrow> 'a list \<Rightarrow> error + 'b list" where
  "embed_each f [] = Inr []"
| "embed_each f (x # xs) =
     (case f x of
        Inl e \<Rightarrow> Inl e
      | Inr y \<Rightarrow> (case embed_each f xs of Inl e \<Rightarrow> Inl e | Inr ys \<Rightarrow> Inr (y # ys)))"

definition health :: "pystr \<times> nat" where
  "health = (ascii ''ok'', 200)"

definition info :: "'f json" where
  "info = JDict [(ascii ''model_id'', JStr (ascii ''BAAI/bge-m3''))]"

definition embed :: "('g, 'f) runtime \<Rightarrow> int \<Rightarrow> 'f json \<Rightarrow> error + real list list" where
  "embed L EMBEDDING_DIM rv =
     (let payload = py_or L rv (JDict [])
      in case normalize_inputs L payload of
           Inl e \<Rightarrow> Inl e
         | Inr inputs \<Rightarrow> embed_each (generate_embedding L EMBEDDING_DIM) inputs)"

record sparse_entry =
  index :: int
  val :: real

definition embed_sparse :: "('g, 'f) runtime \<Rightarrow> 'f json \<Rightarrow> error + sparse_entry list list" where
  "embed_sparse L rv =
     (let payload = py_or L rv (JDict [])
      in case normalize_inputs L payload of
           Inl e \<Rightarrow> Inl e
         | Inr inputs \<Rightarrow> Inr (map (\<lambda>_. [\<lparr>index = 0, val = 0\<rparr>]) inputs))"

text \<open>
  Flask turns the value a view returns into a response with status 200, and an
  exception that leaves a view into a response with status 500 and no result.
\<close>

definition status :: "error + 'a \<Rightarrow> nat" where
  "status r = (case r of Inl e \<Rightarrow> 500 | Inr b \<Rightarrow> 200)"

subsection \<open>Start-up\<close>

text \<open>
  The module body runs once, when the process imports it:
  \<open>EMBEDDING_DIM = int(os.environ.get("EMBEDDING_DIM", "1024"))\<close>. Run as a script, it
  then reads \<open>PORT\<close> the same way and serves requests; every request is answered with
  the one dimension read at start-up.
\<close>

definition EMBEDDING_DIM :: "('g, 'f) runtime \<Rightarrow> (pystr \<rightharpoonup> pystr) \<Rightarrow> error + int" where
  "EMBEDDING_DIM L environ =
     int_of_str L (case environ (ascii ''EMBEDDING_DIM'') of None \<Rightarrow> ascii ''1024'' | Some v \<Rightarrow> v)"

definition PORT :: "('g, 'f) runtime \<Rightarrow> (pystr \<rightharpoonup> pystr) \<Rightarrow> error + int" where
  "PORT L environ =
     int_of_str L (case environ (ascii ''PORT'') of None \<Rightarrow> ascii ''8091'' | Some v \<Rightarrow> v)"

datatype 'f request =
    GET_health
  | GET_info
  | POST_embed "'f json"
  | POST_embed_sparse "'f json"

datatype 'f response =
    Text pystr
  | Document "'f json"
  | Embeddings "real list list"
  | Sparse "sparse_entry list list"

definition dispatch :: "('g, 'f) runtime \<Rightarrow> int \<Rightarrow> 'f request \<Rightarrow> error + 'f response" where
  "dispatch L D req =
     (case req of
        GET_health \<Rightarrow> Inr (Text (fst health))
      | GET_info \<Rightarrow> Inr (Document info)
      | POST_embed rv \<Rightarrow> map_sum id Embeddings (embed L D rv)
      | POST_embed_sparse rv \<Rightarrow> map_sum id Sparse (embed_sparse L rv))"

definition main :: "('g, 'f) runtime \<Rightarrow> (pystr \<rightharpoonup> pystr) \<Rightarrow> 'f request list \<Rightarrow>
    error + (error + 'f response) list" where
  "main L environ reqs =
     (case EMBEDDING_DIM L environ of
        Inl e \<Rightarrow> Inl e
      | Inr D \<Rightarrow>
          (case PORT L environ of
             Inl e \<Rightarrow> Inl e
           | Inr port \<Rightarrow> Inr (map (dispatch L D) reqs)))"

subsection \<open>A concrete runtime, for evaluating the module on examples\<close>

text \<open>
  The theorems below hold for every runtime. To run the module on a concrete request
  one runtime is fixed here: a linear congruential generator in place of the Mersenne
  Twister, a polynomial checksum in place of SHA-256, and an \<open>int\<close> that reads an
  optional minus sign and ASCII decimal digits. It stands for nothing in the
  repository; no theorem about the module depends on it.
\<close>

fun decimal :: "pystr \<Rightarrow> nat \<Rightarrow> nat option" where
  "decimal [] acc = Some acc"
| "decimal (c # cs) acc =
     (if 48 \<le> c \<and> c \<le> 57 then decimal cs (10 * acc + (c - 48)) else None)"

definition sample_int :: "pystr \<Rightarrow> error + int" where
  "sample_int s =
     (case s of
        [] \<Rightarrow> Inl ValueError
      | c # cs \<Rightarrow>
          if c = 45 then
            (if cs = [] then Inl ValueError
             else case decimal cs 0 of None \<Rightarrow> Inl ValueError | Some n \<Rightarrow> Inr (- int n))
          else (case decimal s 0 of None \<Rightarrow> Inl ValueError | Some n \<Rightarrow> Inr (int n)))"

definition sample_runtime :: "(nat, int) runtime" where
  "sample_runtime =
     \<lparr> sha256 = (\<lambda>data. of_nat (foldr (\<lambda>b h. unat b + 257 * h) data 1)),
       seed_rng = (\<lambda>seed. seed mod 4294967296),
       genrand_uint32 = (\<lambda>g. (of_nat g, (g * 1664525 + 1013904223) mod 4294967296)),
       int_of_str = sample_int,
       float_repr = int_repr,
       str_repr = (\<lambda>s. 39 # s @ [39]),
       float_bool = (\<lambda>f. f \<noteq> 0) \<rparr>"

section \<open>Properties\<close>

subsection \<open>The comprehension over \<open>range(EMBEDDING_DIM)\<close>\<close>

lemma length_py_range: "length (py_range n) = nat n"
  by (simp add: py_range_def)

lemma length_draw_each: "length (draw_each L js g) = length js"
  by (induction js arbitrary: g) (auto split: prod.splits)

text \<open>The loop variable is not used: only the number of iterations matters.\<close>

lemma draw_each_length_only:
  "length is = length js \<Longrightarrow> draw_each L is g = draw_each L js g"
proof (induction "is" arbitrary: js g)
  case Nil
  then show ?case by simp
next
  case (Cons i "is")
  then obtain j js' where js: "js = j # js'" by (cases js) auto
  with Cons show ?case by (auto split: prod.splits)
qed

lemma take_draw_each: "take n (draw_each L js g) = draw_each L (take n js) g"
proof (induction js arbitrary: n g)
  case Nil
  then show ?case by simp
next
  case (Cons j js)
  show ?case
  proof (cases n)
    case 0
    then show ?thesis by simp
  next
    case (Suc m)
    with Cons show ?thesis by (auto split: prod.splits)
  qed
qed

subsection \<open>The values \<open>uniform(-1.0, 1.0)\<close> can take\<close>

text \<open>
  \<open>random()\<close> returns \<open>k / 2^53\<close> for a \<open>k\<close> below \<open>2^53 = 9007199254740992\<close>, so
  \<open>uniform(-1.0, 1.0)\<close> returns \<open>k' / 2^52\<close> for an integer \<open>k'\<close> of magnitude at
  most \<open>2^52 = 4503599627370496\<close>: a double, reached without rounding.
\<close>

lemma unat_drop_bit_5: "unat (drop_bit 5 (w :: 32 word)) < 134217728"
proof -
  have "unat w < 4294967296"
    using unsigned_less [of w] by simp
  moreover have "unat (drop_bit 5 w) = unat w div 32"
    unfolding unat_drop_bit_eq by (simp add: drop_bit_eq_div)
  ultimately show ?thesis by simp
qed

lemma unat_drop_bit_6: "unat (drop_bit 6 (w :: 32 word)) < 67108864"
proof -
  have "unat w < 4294967296"
    using unsigned_less [of w] by simp
  moreover have "unat (drop_bit 6 w) = unat w div 64"
    unfolding unat_drop_bit_eq by (simp add: drop_bit_eq_div)
  ultimately show ?thesis by simp
qed

lemma random_random_dyadic:
  "\<exists>k::nat. k < 9007199254740992 \<and> fst (random_random L g) = real k / 9007199254740992"
proof -
  obtain w1 g1 where s1: "genrand_uint32 L g = (w1, g1)" by force
  obtain w2 g2 where s2: "genrand_uint32 L g1 = (w2, g2)" by force
  define a where "a = unat (drop_bit 5 w1)"
  define b where "b = unat (drop_bit 6 w2)"
  have a: "a < 134217728" using unat_drop_bit_5 [of w1] by (simp add: a_def)
  have b: "b < 67108864" using unat_drop_bit_6 [of w2] by (simp add: b_def)
  have "a * 67108864 + b < 9007199254740992"
    using a b by linarith
  moreover have "fst (random_random L g) = real (a * 67108864 + b) / 9007199254740992"
    by (simp add: random_random_def s1 s2 a_def b_def)
  ultimately show ?thesis by blast
qed

lemma uniform_unit_dyadic:
  "\<exists>k::int. - 4503599627370496 \<le> k \<and> k < 4503599627370496 \<and>
     fst (uniform L (- 1) 1 g) = real_of_int k / 4503599627370496"
proof -
  from random_random_dyadic [of L g] obtain n :: nat
    where nr: "n < 9007199254740992 \<and> fst (random_random L g) = real n / 9007199254740992" ..
  have u: "fst (uniform L (- 1) 1 g) = - 1 + 2 * fst (random_random L g)"
    by (simp add: uniform_def split: prod.splits)
  have x: "fst (uniform L (- 1) 1 g) = real_of_int (int n - 4503599627370496) / 4503599627370496"
    using nr by (simp add: u)
  have lo: "- 4503599627370496 \<le> int n - 4503599627370496" by simp
  have hi: "int n - 4503599627370496 < 4503599627370496" using nr by simp
  from lo hi x show ?thesis by (intro exI conjI)
qed

lemma uniform_unit_range:
  "- 1 \<le> fst (uniform L (- 1) 1 g) \<and> fst (uniform L (- 1) 1 g) < 1"
proof -
  from uniform_unit_dyadic [of L g] obtain k :: int
    where k: "- 4503599627370496 \<le> k \<and> k < 4503599627370496 \<and>
      fst (uniform L (- 1) 1 g) = real_of_int k / 4503599627370496" ..
  have "- 4503599627370496 \<le> real_of_int k"
    using k by linarith
  moreover have "real_of_int k < 4503599627370496"
    using k by linarith
  ultimately show ?thesis
    using k by simp
qed

lemma draw_each_range:
  "x \<in> set (draw_each L js g) \<Longrightarrow> - 1 \<le> x \<and> x < 1"
proof (induction js arbitrary: g)
  case Nil
  then show ?case by simp
next
  case (Cons j js)
  obtain y g' where u: "uniform L (- 1) 1 g = (y, g')" by force
  with Cons.prems have "x = y \<or> x \<in> set (draw_each L js g')" by simp
  then show ?case
  proof
    assume "x = y"
    with uniform_unit_range [of L g] u show ?thesis by simp
  next
    assume "x \<in> set (draw_each L js g')"
    then show ?thesis by (rule Cons.IH)
  qed
qed

subsection \<open>Encoding and the comprehension of a view\<close>

lemma utf8_char_cases:
  "utf8_char c = Inl UnicodeEncodeError \<and> is_surrogate c \<or>
   (\<exists>b. utf8_char c = Inr b) \<and> \<not> is_surrogate c"
  by (auto simp: utf8_char_def is_surrogate_def)

lemma encode_utf8_encodable:
  "encodable s \<Longrightarrow> \<exists>data. encode_utf8 s = Inr data"
proof (induction s)
  case Nil
  then show ?case by simp
next
  case (Cons c s)
  then have "\<not> is_surrogate c" and "encodable s"
    by (simp_all add: encodable_def)
  with Cons.IH utf8_char_cases [of c] show ?case
    by auto
qed

lemma encode_utf8_not_encodable:
  "\<not> encodable s \<Longrightarrow> encode_utf8 s = Inl UnicodeEncodeError"
proof (induction s)
  case Nil
  then show ?case by (simp add: encodable_def)
next
  case (Cons c s)
  show ?case
  proof (cases "is_surrogate c")
    case True
    with utf8_char_cases [of c] show ?thesis by auto
  next
    case False
    with Cons.prems have "\<not> encodable s" by (simp add: encodable_def)
    then have "encode_utf8 s = Inl UnicodeEncodeError" by (rule Cons.IH)
    with utf8_char_cases [of c] False show ?thesis by auto
  qed
qed

lemma generate_embedding_cases:
  "generate_embedding L D s =
     (if encodable s
      then Inr (draw_each L (py_range D) (seed_rng L (unat (sha256 L (projr (encode_utf8 s))))))
      else Inl UnicodeEncodeError)"
proof (cases "encodable s")
  case True
  then obtain data where "encode_utf8 s = Inr data"
    using encode_utf8_encodable by blast
  with True show ?thesis by (simp add: generate_embedding_def)
next
  case False
  then show ?thesis
    by (simp add: generate_embedding_def encode_utf8_not_encodable)
qed

text \<open>
  A comprehension that returns has one result per input, the result of the call on that
  input; it returns when every call does.
\<close>

lemma embed_each_Inr:
  "embed_each f xs = Inr ys \<Longrightarrow>
     length ys = length xs \<and> (\<forall>i<length xs. f (xs ! i) = Inr (ys ! i))"
proof (induction xs arbitrary: ys)
  case Nil
  then show ?case by simp
next
  case (Cons x xs)
  from Cons.prems obtain y ys' where fx: "f x = Inr y" and rest: "embed_each f xs = Inr ys'"
    and ys: "ys = y # ys'"
    by (auto split: sum.splits)
  from Cons.IH [OF rest] have len: "length ys' = length xs"
    and nth: "\<forall>i<length xs. f (xs ! i) = Inr (ys' ! i)" by simp_all
  show ?case
  proof (intro conjI allI impI)
    show "length ys = length (x # xs)" using len ys by simp
  next
    fix i assume "i < length (x # xs)"
    then show "f ((x # xs) ! i) = Inr (ys ! i)"
      using fx nth ys by (cases i) simp_all
  qed
qed

lemma embed_each_total:
  "(\<And>x. x \<in> set xs \<Longrightarrow> \<exists>y. f x = Inr y) \<Longrightarrow> \<exists>ys. embed_each f xs = Inr ys"
proof (induction xs)
  case Nil
  then show ?case by simp
next
  case (Cons x xs)
  then obtain y where "f x = Inr y" by force
  moreover from Cons obtain ys where "embed_each f xs = Inr ys" by force
  ultimately show ?case by simp
qed

lemma embed_each_Inl:
  "x \<in> set xs \<Longrightarrow> f x = Inl e \<Longrightarrow> \<exists>e'. embed_each f xs = Inl e'"
  by (induction xs) (auto split: sum.splits)

subsection \<open>The module on the concrete runtime\<close>

lemma sample_uniform_x:
  "uniform sample_runtime (- 1) 1 377 = (- 2251799431762823 / 2251799813685248, 2035326483)"
  "uniform sample_runtime (- 1) 1 2035326483 = (- 235210598681039 / 4503599627370496, 2675922877)"
  "uniform sample_runtime (- 1) 1 2675922877 = (1108217368232663 / 4503599627370496, 2185298167)"
  by (simp_all add: uniform_def random_random_def sample_runtime_def drop_bit_eq_div unat_div
      unat_of_nat)

lemma sample_uniform_y:
  "uniform sample_runtime (- 1) 1 378 = (- 2251799431749819 / 2251799813685248, 2424896188)"
  "uniform sample_runtime (- 1) 1 2424896188 = (581776247265883 / 4503599627370496, 2834906958)"
  by (simp_all add: uniform_def random_random_def sample_runtime_def drop_bit_eq_div unat_div
      unat_of_nat)

lemma sample_seed:
  "seed_rng sample_runtime (unat (sha256 sample_runtime [120])) = 377"
  "seed_rng sample_runtime (unat (sha256 sample_runtime [121])) = 378"
  by (simp_all add: sample_runtime_def unat_of_nat)

lemma sample_encode:
  "encode_utf8 (ascii ''x'') = Inr [120]"
  "encode_utf8 (ascii ''y'') = Inr [121]"
  by (simp_all add: ascii_def utf8_char_def)

lemma sample_range: "py_range 2 = [0, 1]" "py_range 3 = [0, 1, 2]" "py_range 0 = []"
  by (simp_all add: py_range_def upto.simps)

lemma sample_x: "generate_embedding sample_runtime 2 (ascii ''x'') =
    Inr [- 2251799431762823 / 2251799813685248, - 235210598681039 / 4503599627370496]"
  by (simp add: generate_embedding_def sample_encode sample_seed sample_range sample_uniform_x)

lemma sample_x3: "generate_embedding sample_runtime 3 (ascii ''x'') =
    Inr [- 2251799431762823 / 2251799813685248, - 235210598681039 / 4503599627370496,
         1108217368232663 / 4503599627370496]"
  by (simp add: generate_embedding_def sample_encode sample_seed sample_range sample_uniform_x)

lemma sample_y: "generate_embedding sample_runtime 2 (ascii ''y'') =
    Inr [- 2251799431749819 / 2251799813685248, 581776247265883 / 4503599627370496]"
  by (simp add: generate_embedding_def sample_encode sample_seed sample_range sample_uniform_y)

lemma surrogate_raises: "generate_embedding L D [55296] = Inl UnicodeEncodeError"
  by (simp add: generate_embedding_def utf8_char_def is_surrogate_def)

lemma sample_int_values:
  "sample_int (ascii ''-5'') = Inr (- 5)"
  "sample_int (ascii ''abc'') = Inl ValueError"
  by (simp_all add: sample_int_def ascii_def)

lemma py_or_object: "py_or L (JDict (kv # kvs)) d = JDict (kv # kvs)"
  by (simp add: py_or_def)

lemma normalize_xy:
  "normalize_inputs L (JDict [(ascii ''inputs'', JList [JStr (ascii ''x''), JStr (ascii ''y'')])])
     = Inr [ascii ''x'', ascii ''y'']"
  by (simp add: normalize_inputs_def py_str_def)

subsection \<open>Normalisation and the views\<close>

text \<open>
  Normalisation returns on every falsy value and on every \<open>dict\<close>; on every other
  value (a non-empty list or string, a non-zero number, \<open>True\<close>) it raises.
\<close>

lemma normalize_objects:
  "\<not> py_bool L rv \<or> (\<exists>kvs. rv = JDict kvs) \<Longrightarrow>
     \<exists>inputs. normalize_inputs L (py_or L rv (JDict [])) = Inr inputs"
  by (auto simp: py_or_def normalize_inputs_def Let_def split: option.splits json.splits)

lemma normalize_non_object:
  "py_bool L rv \<Longrightarrow> (\<And>kvs. rv \<noteq> JDict kvs) \<Longrightarrow>
     normalize_inputs L (py_or L rv (JDict [])) = Inl AttributeError"
  by (cases rv) (auto simp: py_or_def normalize_inputs_def)

lemma embed_normalized:
  "normalize_inputs L (py_or L rv (JDict [])) = Inr inputs \<Longrightarrow>
     embed L D rv = embed_each (generate_embedding L D) inputs"
  by (simp add: embed_def)

lemma embed_sparse_normalized:
  "normalize_inputs L (py_or L rv (JDict [])) = Inr inputs \<Longrightarrow>
     embed_sparse L rv = Inr (map (\<lambda>_. [\<lparr>index = 0, val = 0\<rparr>]) inputs)"
  by (simp add: embed_sparse_def)

text \<open>
  A request without a body, or with a body that is not JSON, is answered with the empty
  list and status 200.
\<close>

lemma embed_without_body:
  "embed L D JNull = Inr [] \<and> status (embed L D JNull) = 200 \<and>
   embed_sparse L JNull = Inr [] \<and> status (embed_sparse L JNull) = 200"
  by (simp add: embed_def embed_sparse_def py_or_def normalize_inputs_def status_def)

lemma embed_each_empty_vectors:
  "(\<And>x. x \<in> set xs \<Longrightarrow> f x = Inr []) \<Longrightarrow> embed_each f xs = Inr (replicate (length xs) [])"
  by (induction xs) simp_all

subsection \<open>What the generator reads of the runtime\<close>

text \<open>Drawing reads the generator core and no other field of the runtime.\<close>

lemma random_random_reads:
  "genrand_uint32 L1 = genrand_uint32 L2 \<Longrightarrow> random_random L1 g = random_random L2 g"
  by (simp add: random_random_def)

lemma uniform_reads:
  "genrand_uint32 L1 = genrand_uint32 L2 \<Longrightarrow> uniform L1 a b g = uniform L2 a b g"
  by (simp add: uniform_def random_random_reads [of L1 L2])

lemma draw_each_reads:
  "genrand_uint32 L1 = genrand_uint32 L2 \<Longrightarrow> draw_each L1 js g = draw_each L2 js g"
proof (induction js arbitrary: g)
  case Nil
  then show ?case by simp
next
  case (Cons j js)
  from Cons.prems have "uniform L1 (- 1) 1 g = uniform L2 (- 1) 1 g"
    by (rule uniform_reads)
  with Cons show ?case by (simp split: prod.splits)
qed

subsection \<open>One request, one process\<close>

text \<open>
  The answer of \<open>/embed\<close> to a body whose \<open>inputs\<close> is a single string, and the
  answer of a process that has started to the request at a given position.
\<close>

lemma embed_single_string:
  "embed L D (JDict [(ascii ''inputs'', JStr s)]) =
     map_sum id (\<lambda>v. [v]) (generate_embedding L D s)"
  by (simp add: embed_def py_or_def normalize_inputs_def split: sum.splits)

lemma main_nth:
  assumes "EMBEDDING_DIM L environ = Inr D" and "main L environ reqs = Inr out"
    and "m < length reqs"
  shows "out ! m = dispatch L D (reqs ! m)"
proof -
  from assms(1, 2) have "out = map (dispatch L D) reqs"
    by (auto simp: main_def split: sum.splits)
  with assms(3) show ?thesis by simp
qed

subsection \<open>The sparse view on a request that has normalised inputs\<close>

text \<open>
  The response is one stub per normalised input, whatever the inputs are: it depends on
  their number only. The inputs \<^verbatim>\<open>["x", "y"]\<close> yield two stubs. A request has
  normalised inputs when its body is missing, is not JSON, is falsy or is an object.
\<close>

lemma embed_sparse_stub:
  assumes "normalize_inputs L (py_or L rv (JDict [])) = Inr inputs"
  shows "embed_sparse L rv = Inr (replicate (length inputs) [\<lparr>index = 0, val = 0\<rparr>]) \<and>
         embed_sparse L (JDict [(ascii ''inputs'', JList [JStr (ascii ''x''), JStr (ascii ''y'')])]) =
           Inr [[\<lparr>index = 0, val = 0\<rparr>], [\<lparr>index = 0, val = 0\<rparr>]]"
proof
  show "embed_sparse L rv = Inr (replicate (length inputs) [\<lparr>index = 0, val = 0\<rparr>])"
    by (simp add: embed_sparse_normalized [OF assms] map_replicate_const)
  show "embed_sparse L (JDict [(ascii ''inputs'', JList [JStr (ascii ''x''), JStr (ascii ''y'')])]) =
           Inr [[\<lparr>index = 0, val = 0\<rparr>], [\<lparr>index = 0, val = 0\<rparr>]]"
    by (simp add: embed_sparse_def py_or_object normalize_xy)
qed

lemma embed_sparse_falsy_or_object:
  assumes "\<not> py_bool L rv \<or> (\<exists>kvs. rv = JDict kvs)"
  shows "\<exists>inputs. normalize_inputs L (py_or L rv (JDict [])) = Inr inputs \<and>
           embed_sparse L rv = Inr (replicate (length inputs) [\<lparr>index = 0, val = 0\<rparr>])"
proof -
  from normalize_objects [OF assms] obtain inputs
    where n: "normalize_inputs L (py_or L rv (JDict [])) = Inr inputs" ..
  then have "embed_sparse L rv = Inr (replicate (length inputs) [\<lparr>index = 0, val = 0\<rparr>])"
    by (simp add: embed_sparse_normalized map_replicate_const)
  with n show ?thesis by blast
qed

lemma embed_sparse_stub_example:
  "normalize_inputs sample_runtime
     (py_or sample_runtime
        (JDict [(ascii ''inputs'', JList [JStr (ascii ''a''), JStr (ascii ''b''), JInt 3])])
        (JDict [])) =
     Inr [ascii ''a'', ascii ''b'', ascii ''3''] \<and>
   embed_sparse sample_runtime
     (JDict [(ascii ''inputs'', JList [JStr (ascii ''a''), JStr (ascii ''b''), JInt 3])]) =
     Inr [[\<lparr>index = 0, val = 0\<rparr>], [\<lparr>index = 0, val = 0\<rparr>], [\<lparr>index = 0, val = 0\<rparr>]]"
proof -
  have n: "normalize_inputs sample_runtime
     (py_or sample_runtime
        (JDict [(ascii ''inputs'', JList [JStr (ascii ''a''), JStr (ascii ''b''), JInt 3])])
        (JDict [])) =
     Inr [ascii ''a'', ascii ''b'', ascii ''3'']"
    by (simp add: py_or_object normalize_inputs_def py_str_def int_repr_def digits.simps)
       (simp add: ascii_def)
  from embed_sparse_stub [OF n] n show ?thesis
    by (simp add: numeral_3_eq_3)
qed

section \<open>The claims\<close>

text \<open>
  C1. The generator is deterministic: its output is a function of the text and the
  configured dimension \<open>D\<close> only. A process is a Python runtime, an environment and
  the requests it has served. Take two processes whose runtimes have the same
  \<open>hashlib.sha256\<close> and the same \<open>random.Random\<close>, and differ in anything else. Then
  \<^item> a call on a text under \<open>D\<close> gives the same result in both: the generator reads
    nothing of the runtime but the hash and the random number generator;
  \<^item> within a run, whatever batch the text is embedded in and at whatever position,
    the vector is that of a call made on its own: each call seeds a generator of its
    own from the digest of the text, and no call sees what another has drawn;
  \<^item> across runs and processes, whatever the environments (as long as both set the
    dimension \<open>D\<close>) and whatever was served before, the answer of \<open>/embed\<close> to the
    body \<^verbatim>\<open>{"inputs": s}\<close> is the same, the one vector generated from \<open>s\<close>.
\<close>

theorem generate_embedding_deterministic:
  fixes L1 L2 :: "('g, 'f) runtime"
  assumes hash: "sha256 L1 = sha256 L2"
    and seed: "seed_rng L1 = seed_rng L2"
    and core: "genrand_uint32 L1 = genrand_uint32 L2"
  shows "generate_embedding L1 D s = generate_embedding L2 D s \<and>
         (\<forall>xs ys vs ws i j.
            embed_each (generate_embedding L1 D) xs = Inr vs \<longrightarrow>
            embed_each (generate_embedding L2 D) ys = Inr ws \<longrightarrow>
            i < length xs \<longrightarrow> j < length ys \<longrightarrow> xs ! i = s \<longrightarrow> ys ! j = s \<longrightarrow>
            vs ! i = ws ! j \<and> generate_embedding L1 D s = Inr (vs ! i)) \<and>
         (\<forall>env1 env2 reqs1 reqs2 out1 out2 m n.
            EMBEDDING_DIM L1 env1 = Inr D \<longrightarrow> EMBEDDING_DIM L2 env2 = Inr D \<longrightarrow>
            main L1 env1 reqs1 = Inr out1 \<longrightarrow> main L2 env2 reqs2 = Inr out2 \<longrightarrow>
            m < length reqs1 \<longrightarrow> n < length reqs2 \<longrightarrow>
            reqs1 ! m = POST_embed (JDict [(ascii ''inputs'', JStr s)]) \<longrightarrow>
            reqs2 ! n = POST_embed (JDict [(ascii ''inputs'', JStr s)]) \<longrightarrow>
            out1 ! m = out2 ! n \<and>
            out1 ! m = map_sum id (\<lambda>v. Embeddings [v]) (generate_embedding L1 D s))"
proof -
  have same: "generate_embedding L1 D s = generate_embedding L2 D s"
  proof (cases "encode_utf8 s")
    case (Inl e)
    then show ?thesis by (simp add: generate_embedding_def)
  next
    case (Inr data)
    have "draw_each L1 (py_range D) (seed_rng L1 (unat (sha256 L1 data))) =
          draw_each L2 (py_range D) (seed_rng L2 (unat (sha256 L2 data)))"
      using draw_each_reads [OF core] by (simp add: hash seed)
    with Inr show ?thesis by (simp add: generate_embedding_def)
  qed
  have batch: "vs ! i = ws ! j \<and> generate_embedding L1 D s = Inr (vs ! i)"
    if a: "embed_each (generate_embedding L1 D) xs = Inr vs"
      and b: "embed_each (generate_embedding L2 D) ys = Inr ws"
      and i: "i < length xs" "xs ! i = s" and j: "j < length ys" "ys ! j = s"
    for xs ys vs ws i j
  proof -
    from embed_each_Inr [OF a] i have v: "generate_embedding L1 D s = Inr (vs ! i)" by auto
    from embed_each_Inr [OF b] j have w: "generate_embedding L2 D s = Inr (ws ! j)" by auto
    from v w same show ?thesis by simp
  qed
  have served: "out1 ! m = out2 ! n \<and>
      out1 ! m = map_sum id (\<lambda>v. Embeddings [v]) (generate_embedding L1 D s)"
    if d1: "EMBEDDING_DIM L1 env1 = Inr D" and d2: "EMBEDDING_DIM L2 env2 = Inr D"
      and m1: "main L1 env1 reqs1 = Inr out1" and m2: "main L2 env2 reqs2 = Inr out2"
      and m: "m < length reqs1" and n: "n < length reqs2"
      and r1: "reqs1 ! m = POST_embed (JDict [(ascii ''inputs'', JStr s)])"
      and r2: "reqs2 ! n = POST_embed (JDict [(ascii ''inputs'', JStr s)])"
    for env1 env2 reqs1 reqs2 and out1 out2 :: "(error + 'f response) list" and m n
  proof -
    have o1: "out1 ! m = map_sum id (\<lambda>v. Embeddings [v]) (generate_embedding L1 D s)"
      using main_nth [OF d1 m1 m] r1
      by (simp add: dispatch_def embed_single_string sum.map_comp comp_def id_def)
    have o2: "out2 ! n = map_sum id (\<lambda>v. Embeddings [v]) (generate_embedding L2 D s)"
      using main_nth [OF d2 m2 n] r2
      by (simp add: dispatch_def embed_single_string sum.map_comp comp_def id_def)
    from o1 o2 same show ?thesis by simp
  qed
  from same batch served show ?thesis by blast
qed

text \<open>
  Two concrete runtimes that differ in \<open>repr\<close> and in the truth value of floats: the
  text \<open>x\<close> generated on the second, two batches with \<open>x\<close> first in one and second in the
  other, and two processes with different environments and different requests served
  before.
\<close>

theorem generate_embedding_deterministic_witness:
  "sha256 sample_runtime =
     sha256 (sample_runtime\<lparr>str_repr := (\<lambda>s. s), float_bool := (\<lambda>f. True)\<rparr>) \<and>
   seed_rng sample_runtime =
     seed_rng (sample_runtime\<lparr>str_repr := (\<lambda>s. s), float_bool := (\<lambda>f. True)\<rparr>) \<and>
   genrand_uint32 sample_runtime =
     genrand_uint32 (sample_runtime\<lparr>str_repr := (\<lambda>s. s), float_bool := (\<lambda>f. True)\<rparr>) \<and>
   generate_embedding (sample_runtime\<lparr>str_repr := (\<lambda>s. s), float_bool := (\<lambda>f. True)\<rparr>)
       2 (ascii ''x'') =
     Inr [- 2251799431762823 / 2251799813685248, - 235210598681039 / 4503599627370496] \<and>
   embed_each (generate_embedding sample_runtime 2) [ascii ''x'', ascii ''y''] =
     Inr [[- 2251799431762823 / 2251799813685248, - 235210598681039 / 4503599627370496],
          [- 2251799431749819 / 2251799813685248, 581776247265883 / 4503599627370496]] \<and>
   embed_each
       (generate_embedding
          (sample_runtime\<lparr>str_repr := (\<lambda>s. s), float_bool := (\<lambda>f. True)\<rparr>) 2)
       [ascii ''y'', ascii ''x''] =
     Inr [[- 2251799431749819 / 2251799813685248, 581776247265883 / 4503599627370496],
          [- 2251799431762823 / 2251799813685248, - 235210598681039 / 4503599627370496]] \<and>
   main sample_runtime [ascii ''EMBEDDING_DIM'' \<mapsto> ascii ''2'']
       [POST_embed (JDict [(ascii ''inputs'', JStr (ascii ''x''))])] =
     Inr [Inr (Embeddings
       [[- 2251799431762823 / 2251799813685248, - 235210598681039 / 4503599627370496]])] \<and>
   main (sample_runtime\<lparr>str_repr := (\<lambda>s. s), float_bool := (\<lambda>f. True)\<rparr>)
       [ascii ''EMBEDDING_DIM'' \<mapsto> ascii ''2'', ascii ''PORT'' \<mapsto> ascii ''9000'']
       [GET_health, POST_embed (JDict [(ascii ''inputs'', JStr (ascii ''x''))])] =
     Inr [Inr (Text (ascii ''ok'')),
          Inr (Embeddings
       [[- 2251799431762823 / 2251799813685248, - 235210598681039 / 4503599627370496]])]"
proof -
  let ?L2 = "sample_runtime\<lparr>str_repr := (\<lambda>s. s), float_bool := (\<lambda>f. True)\<rparr>"
  let ?env1 = "[ascii ''EMBEDDING_DIM'' \<mapsto> ascii ''2'']"
  let ?env2 = "[ascii ''EMBEDDING_DIM'' \<mapsto> ascii ''2'', ascii ''PORT'' \<mapsto> ascii ''9000'']"
  let ?post = "POST_embed (JDict [(ascii ''inputs'', JStr (ascii ''x''))]) :: int request"
  have h: "sha256 sample_runtime = sha256 ?L2" "seed_rng sample_runtime = seed_rng ?L2"
    "genrand_uint32 sample_runtime = genrand_uint32 ?L2"
    by simp_all
  note det = generate_embedding_deterministic [OF h]
  from det [of 2 "ascii ''x''"]
  have x: "generate_embedding ?L2 2 (ascii ''x'') =
     Inr [- 2251799431762823 / 2251799813685248, - 235210598681039 / 4503599627370496]"
    by (simp add: sample_x)
  from det [of 2 "ascii ''y''"]
  have y: "generate_embedding ?L2 2 (ascii ''y'') =
     Inr [- 2251799431749819 / 2251799813685248, 581776247265883 / 4503599627370496]"
    by (simp add: sample_y)
  have keys: "ascii ''PORT'' \<noteq> ascii ''EMBEDDING_DIM''"
    by (simp add: ascii_def)
  have ints: "sample_int (ascii ''2'') = Inr 2" "sample_int (ascii ''9000'') = Inr 9000"
    "sample_int (ascii ''8091'') = Inr 8091"
    by (simp_all add: sample_int_def ascii_def)
  have d1: "EMBEDDING_DIM sample_runtime ?env1 = Inr 2" "PORT sample_runtime ?env1 = Inr 8091"
    using keys by (simp_all add: EMBEDDING_DIM_def PORT_def sample_runtime_def ints)
  have d2: "EMBEDDING_DIM ?L2 ?env2 = Inr 2" "PORT ?L2 ?env2 = Inr 9000"
    using keys by (simp_all add: EMBEDDING_DIM_def PORT_def sample_runtime_def ints)
  have m1: "main sample_runtime ?env1 [?post] =
     Inr [Inr (Embeddings
       [[- 2251799431762823 / 2251799813685248, - 235210598681039 / 4503599627370496]])]"
    by (simp add: main_def d1 dispatch_def embed_single_string sample_x)
  have m2: "main ?L2 ?env2 [GET_health, ?post] =
     Inr [Inr (Text (ascii ''ok'')),
          Inr (Embeddings
       [[- 2251799431762823 / 2251799813685248, - 235210598681039 / 4503599627370496]])]"
    by (simp add: main_def d2 dispatch_def embed_single_string x health_def)
  from h x y m1 m2 show ?thesis by (simp add: sample_x sample_y)
qed

text \<open>
  C2. Input normalisation is meant never to fail, whatever the request body. The
  module does not achieve it: \<open>get_json(...) or {}\<close> replaces only a falsy value by the
  empty \<open>dict\<close>, so a body that is a non-empty JSON array (or a non-empty string, a
  non-zero number, \<open>true\<close>) reaches \<open>payload.get\<close>, which raises \<open>AttributeError\<close>, and
  the endpoint answers with status 500. Evaluated at the body \<^verbatim>\<open>[1]\<close>:
\<close>

theorem embed_non_object_body_raises:
  "normalize_inputs L (py_or L (JList [JInt 1]) (JDict [])) = Inl AttributeError \<and>
   embed L D (JList [JInt 1]) = Inl AttributeError \<and>
   status (embed L D (JList [JInt 1])) = 500"
  by (simp add: embed_def py_or_def normalize_inputs_def status_def)

text \<open>
  C3. Dimension invariant, as the module has it: for every string that UTF-8 can
  encode (every string without a lone surrogate, the empty string included) and every
  non-negative dimension \<open>D\<close>, \<open>generate_embedding\<close> returns a list of exactly \<open>D\<close>
  floats; in particular \<open>D = 0\<close> yields the empty vector.
\<close>

theorem generate_embedding_dimension:
  "encodable s \<Longrightarrow> 0 \<le> D \<Longrightarrow>
     \<exists>v. generate_embedding L D s = Inr v \<and> int (length v) = D"
  by (simp add: generate_embedding_cases length_draw_each length_py_range)

text \<open>
  On the concrete runtime: the empty string under dimension 0, and \<open>x\<close> under
  dimension 2.
\<close>

theorem generate_embedding_dimension_witness:
  "encodable [] \<and> encodable (ascii ''x'') \<and>
   generate_embedding sample_runtime 0 [] = Inr [] \<and>
   generate_embedding sample_runtime 2 (ascii ''x'') =
     Inr [- 2251799431762823 / 2251799813685248, - 235210598681039 / 4503599627370496]"
proof -
  have e: "encodable []" "encodable (ascii ''x'')"
    by (simp_all add: encodable_def ascii_def is_surrogate_def)
  from generate_embedding_dimension [OF e(1), of 0 sample_runtime]
    generate_embedding_dimension [OF e(2), of 2 sample_runtime]
  show ?thesis using e by (simp add: sample_x)
qed

text \<open>
  As the claim words it, for every string, the invariant fails: on the string that is
  the lone surrogate \<open>U+D800\<close> (the JSON text \<^verbatim>\<open>"\ud800"\<close>) the generator raises
  and returns no vector.
\<close>

theorem generate_embedding_dimension_counterexample:
  "generate_embedding sample_runtime 4 [55296] = Inl UnicodeEncodeError"
  by (rule surrogate_raises)

text \<open>
  C4. Range invariant: every component of a vector that \<open>generate_embedding\<close>
  returns lies in the closed interval from \<open>-1.0\<close> to \<open>1.0\<close>, for every string and
  every configured dimension.
\<close>

theorem generate_embedding_range:
  "generate_embedding L D s = Inr v \<Longrightarrow> \<forall>x\<in>set v. - 1 \<le> x \<and> x \<le> 1"
proof
  fix x
  assume g: "generate_embedding L D s = Inr v" and x: "x \<in> set v"
  from g obtain rng where "v = draw_each L (py_range D) rng"
    by (auto simp: generate_embedding_def Let_def split: sum.splits)
  with x draw_each_range [of x L "py_range D" rng] show "- 1 \<le> x \<and> x \<le> 1"
    by simp
qed

text \<open>
  The two components generated for \<open>y\<close> on the concrete runtime.
\<close>

theorem generate_embedding_range_witness:
  "generate_embedding sample_runtime 2 (ascii ''y'') =
     Inr [- 2251799431749819 / 2251799813685248, 581776247265883 / 4503599627370496] \<and>
   - 1 \<le> (- 2251799431749819 / 2251799813685248 :: real) \<and>
   (- 2251799431749819 / 2251799813685248 :: real) \<le> 1 \<and>
   - 1 \<le> (581776247265883 / 4503599627370496 :: real) \<and>
   (581776247265883 / 4503599627370496 :: real) \<le> 1"
  using generate_embedding_range [OF sample_y] by (simp add: sample_y)

text \<open>
  C5. The shape rules of \<open>normalize_inputs\<close> on a decoded request object: the
  empty list when \<open>inputs\<close> is absent, \<open>[v]\<close> when it is a single string \<open>v\<close>, the
  \<open>str\<close> of each element in order when it is a list (a string stays as it is; a number,
  a boolean or a nested structure becomes its text and is not rejected), and the empty
  list for any other shape, such as a single number or a mapping. The body
  \<^verbatim>\<open>{"inputs": ["a", "b", 3]}\<close> normalises to \<^verbatim>\<open>["a", "b", "3"]\<close>.
\<close>

theorem normalize_inputs_shapes:
  "normalize_inputs L (JDict kvs) =
     Inr (case map_of kvs (ascii ''inputs'') of
            None \<Rightarrow> []
          | Some (JStr v) \<Rightarrow> [v]
          | Some (JList items) \<Rightarrow> map (py_str L) items
          | Some _ \<Rightarrow> []) \<and>
   py_str L (JStr s) = s \<and>
   py_str L (JInt 3) = ascii ''3'' \<and>
   py_str L (JBool True) = ascii ''True'' \<and>
   py_str L (JList [JInt 1, JInt 20]) = ascii ''[1, 20]'' \<and>
   normalize_inputs L
     (JDict [(ascii ''inputs'', JList [JStr (ascii ''a''), JStr (ascii ''b''), JInt 3])]) =
     Inr [ascii ''a'', ascii ''b'', ascii ''3''] \<and>
   normalize_inputs L (JDict [(ascii ''inputs'', JInt 42)]) = Inr [] \<and>
   normalize_inputs L (JDict [(ascii ''inputs'', JDict [(ascii ''a'', JInt 1)])]) = Inr []"
proof -
  have shape: "normalize_inputs L (JDict kvs) =
     Inr (case map_of kvs (ascii ''inputs'') of
            None \<Rightarrow> []
          | Some (JStr v) \<Rightarrow> [v]
          | Some (JList items) \<Rightarrow> map (py_str L) items
          | Some _ \<Rightarrow> [])"
    by (simp add: normalize_inputs_def split: option.splits json.splits)
  have strs: "py_str L (JStr s) = s" "py_str L (JInt 3) = ascii ''3''"
    "py_str L (JBool True) = ascii ''True''"
    "py_str L (JList [JInt 1, JInt 20]) = ascii ''[1, 20]''"
    by (simp_all add: py_str_def int_repr_def digits.simps ascii_def)
  have ex: "normalize_inputs L
     (JDict [(ascii ''inputs'', JList [JStr (ascii ''a''), JStr (ascii ''b''), JInt 3])]) =
     Inr [ascii ''a'', ascii ''b'', ascii ''3'']"
    by (simp add: normalize_inputs_def strs) (simp add: py_str_def)
  have other: "normalize_inputs L (JDict [(ascii ''inputs'', JInt 42)]) = Inr []"
    "normalize_inputs L (JDict [(ascii ''inputs'', JDict [(ascii ''a'', JInt 1)])]) = Inr []"
    by (simp_all add: normalize_inputs_def)
  from shape strs ex other show ?thesis by simp
qed

text \<open>
  C6. A dimension that is no integer is fatal at start-up: when \<open>int\<close> raises on
  the value of \<open>EMBEDDING_DIM\<close> in the environment, the module body raises that
  exception, and the process ends with it before it answers any request.
\<close>

theorem startup_fails_on_bad_dimension:
  "environ (ascii ''EMBEDDING_DIM'') = Some v \<Longrightarrow> int_of_str L v = Inl e \<Longrightarrow>
     EMBEDDING_DIM L environ = Inl e \<and> main L environ reqs = Inl e"
  by (simp add: EMBEDDING_DIM_def main_def)

text \<open>
  The environment \<open>EMBEDDING_DIM=abc\<close> on the concrete runtime, with one request
  waiting.
\<close>

theorem startup_fails_on_bad_dimension_witness:
  "[ascii ''EMBEDDING_DIM'' \<mapsto> ascii ''abc''] (ascii ''EMBEDDING_DIM'') = Some (ascii ''abc'') \<and>
   int_of_str sample_runtime (ascii ''abc'') = Inl ValueError \<and>
   EMBEDDING_DIM sample_runtime [ascii ''EMBEDDING_DIM'' \<mapsto> ascii ''abc''] = Inl ValueError \<and>
   main sample_runtime [ascii ''EMBEDDING_DIM'' \<mapsto> ascii ''abc'']
     [POST_embed (JDict [(ascii ''inputs'', JStr (ascii ''x''))])] = Inl ValueError"
proof -
  have a: "[ascii ''EMBEDDING_DIM'' \<mapsto> ascii ''abc''] (ascii ''EMBEDDING_DIM'') = Some (ascii ''abc'')"
    by simp
  have b: "int_of_str sample_runtime (ascii ''abc'') = Inl ValueError"
    by (simp add: sample_runtime_def sample_int_values)
  from startup_fails_on_bad_dimension
      [where environ = "[ascii ''EMBEDDING_DIM'' \<mapsto> ascii ''abc'']", OF a b] a b
  show ?thesis by simp
qed

text \<open>
  C7. Length and order, as the module has them. For a request that has a
  normalised input list, \<open>/embed_sparse\<close> returns a list of that length; \<open>/embed\<close>
  returns a list when every normalised string can be encoded in UTF-8; and every list
  that \<open>/embed\<close> returns has that length, its \<open>i\<close>-th element being the vector
  generated from the \<open>i\<close>-th normalised string.
\<close>

theorem views_preserve_length_and_order:
  assumes "normalize_inputs L (py_or L rv (JDict [])) = Inr inputs"
  shows "(\<exists>sp. embed_sparse L rv = Inr sp \<and> length sp = length inputs) \<and>
         (list_all encodable inputs \<longrightarrow> (\<exists>vs. embed L D rv = Inr vs)) \<and>
         (\<forall>vs. embed L D rv = Inr vs \<longrightarrow>
            length vs = length inputs \<and>
            (\<forall>i<length inputs. generate_embedding L D (inputs ! i) = Inr (vs ! i)))"
proof (intro conjI allI impI)
  show "\<exists>sp. embed_sparse L rv = Inr sp \<and> length sp = length inputs"
    by (simp add: embed_sparse_normalized [OF assms])
next
  assume "list_all encodable inputs"
  then have "\<exists>y. generate_embedding L D x = Inr y" if "x \<in> set inputs" for x
    using that by (simp add: generate_embedding_cases list_all_iff)
  then show "\<exists>vs. embed L D rv = Inr vs"
    unfolding embed_normalized [OF assms] by (rule embed_each_total)
next
  fix vs assume "embed L D rv = Inr vs"
  then have e: "embed_each (generate_embedding L D) inputs = Inr vs"
    by (simp add: embed_normalized [OF assms])
  from embed_each_Inr [OF e] show "length vs = length inputs" by simp
  fix i assume "i < length inputs"
  with embed_each_Inr [OF e] show "generate_embedding L D (inputs ! i) = Inr (vs ! i)" by simp
qed

text \<open>
  The request \<^verbatim>\<open>{"inputs": ["x", "y"]}\<close> on the concrete runtime, dimension 2.
\<close>

theorem views_preserve_length_and_order_witness:
  "normalize_inputs sample_runtime
     (py_or sample_runtime
        (JDict [(ascii ''inputs'', JList [JStr (ascii ''x''), JStr (ascii ''y'')])]) (JDict [])) =
     Inr [ascii ''x'', ascii ''y''] \<and>
   embed_sparse sample_runtime
     (JDict [(ascii ''inputs'', JList [JStr (ascii ''x''), JStr (ascii ''y'')])]) =
     Inr [[\<lparr>index = 0, val = 0\<rparr>], [\<lparr>index = 0, val = 0\<rparr>]] \<and>
   embed sample_runtime 2
     (JDict [(ascii ''inputs'', JList [JStr (ascii ''x''), JStr (ascii ''y'')])]) =
     Inr [[- 2251799431762823 / 2251799813685248, - 235210598681039 / 4503599627370496],
          [- 2251799431749819 / 2251799813685248, 581776247265883 / 4503599627370496]]"
proof -
  have n: "normalize_inputs sample_runtime
     (py_or sample_runtime
        (JDict [(ascii ''inputs'', JList [JStr (ascii ''x''), JStr (ascii ''y'')])]) (JDict [])) =
     Inr [ascii ''x'', ascii ''y'']"
    by (simp add: py_or_object normalize_xy)
  from views_preserve_length_and_order [OF n, of 2] n show ?thesis
    by (simp add: embed_def embed_sparse_def sample_x sample_y)
qed

text \<open>
  For every request it fails: the request \<^verbatim>\<open>{"inputs": "\ud800"}\<close> has a
  normalised input list of length one, and \<open>/embed\<close> raises.
\<close>

theorem views_preserve_length_counterexample:
  "normalize_inputs sample_runtime
     (py_or sample_runtime (JDict [(ascii ''inputs'', JStr [55296])]) (JDict [])) =
     Inr [[55296]] \<and>
   embed sample_runtime 4 (JDict [(ascii ''inputs'', JStr [55296])]) = Inl UnicodeEncodeError"
  by (simp add: embed_def py_or_object normalize_inputs_def surrogate_raises)

text \<open>
  C8. The sparse stub: for every request, \<open>/embed_sparse\<close> is to return, for each
  normalised input string and whatever the string, the one-entry list with index 0 and
  value 0.0. On every request that has normalised input strings it does (lemmas
  \<open>embed_sparse_stub\<close> and \<open>embed_sparse_falsy_or_object\<close> above). Not on every
  request: the view takes its payload as \<open>/embed\<close> does, with \<open>get_json(...) or {}\<close>,
  so a body that is a non-empty JSON array (or a non-empty string, a non-zero number,
  \<open>true\<close>) reaches \<open>payload.get\<close>, which raises \<open>AttributeError\<close>, and the endpoint
  answers with status 500 and no list. Evaluated at the body \<^verbatim>\<open>[1]\<close>:
\<close>

theorem embed_sparse_non_object_body_raises:
  "normalize_inputs L (py_or L (JList [JInt 1]) (JDict [])) = Inl AttributeError \<and>
   embed_sparse L (JList [JInt 1]) = Inl AttributeError \<and>
   status (embed_sparse L (JList [JInt 1])) = 500"
  by (simp add: embed_sparse_def py_or_def normalize_inputs_def status_def)

text \<open>
  C9. Prefix coherence across dimensions: for dimensions \<open>D1 \<le> D2\<close>, the vector
  generated for a string under \<open>D1\<close> is the first \<open>D1\<close> components of the vector
  generated for it under \<open>D2\<close> (and the call raises under the one exactly when it
  raises under the other): the components are drawn in order from one generator, seeded
  by the digest of the string alone.
\<close>

theorem generate_embedding_prefix:
  assumes "D1 \<le> D2"
  shows "generate_embedding L D1 s = map_sum id (take (nat D1)) (generate_embedding L D2 s)"
proof -
  have "length (py_range D1) = length (take (nat D1) (py_range D2))"
    using assms by (simp add: length_py_range)
  then have "draw_each L (py_range D1) g = draw_each L (take (nat D1) (py_range D2)) g" for g
    by (rule draw_each_length_only)
  then have "draw_each L (py_range D1) g = take (nat D1) (draw_each L (py_range D2) g)" for g
    by (simp add: take_draw_each)
  then show ?thesis
    by (simp add: generate_embedding_cases)
qed

text \<open>
  The string \<open>x\<close> under dimensions 2 and 3 on the concrete runtime.
\<close>

theorem generate_embedding_prefix_witness:
  "(2::int) \<le> 3 \<and>
   generate_embedding sample_runtime 2 (ascii ''x'') =
     Inr [- 2251799431762823 / 2251799813685248, - 235210598681039 / 4503599627370496] \<and>
   generate_embedding sample_runtime 3 (ascii ''x'') =
     Inr [- 2251799431762823 / 2251799813685248, - 235210598681039 / 4503599627370496,
          1108217368232663 / 4503599627370496]"
proof -
  have h: "(2::int) \<le> 3" by simp
  from generate_embedding_prefix [OF h, of sample_runtime "ascii ''x''"] show ?thesis
    by (simp add: sample_x3)
qed

text \<open>
  C10. A negative dimension is accepted silently, as the module has it: when the
  value of \<open>EMBEDDING_DIM\<close> parses as a negative integer the module body succeeds;
  \<open>generate_embedding\<close> then returns the empty vector for every string that UTF-8 can
  encode; \<open>/embed\<close> returns one empty list per normalised input when all of them can
  be encoded, and every list it returns is a list of empty lists. Run as a script, the
  process goes on to serve requests with that dimension once \<open>PORT\<close> is read.
\<close>

theorem negative_dimension_accepted:
  assumes "environ (ascii ''EMBEDDING_DIM'') = Some v" and "int_of_str L v = Inr D" and "D < 0"
  shows "EMBEDDING_DIM L environ = Inr D \<and>
         (encodable s \<longrightarrow> generate_embedding L D s = Inr []) \<and>
         (normalize_inputs L (py_or L rv (JDict [])) = Inr inputs \<longrightarrow>
            list_all encodable inputs \<longrightarrow>
            embed L D rv = Inr (replicate (length inputs) [])) \<and>
         (\<forall>vs. embed L D rv = Inr vs \<longrightarrow> (\<forall>v\<in>set vs. v = [])) \<and>
         (\<forall>port. PORT L environ = Inr port \<longrightarrow>
            main L environ reqs = Inr (map (dispatch L D) reqs))"
proof (intro conjI allI impI ballI)
  show dim: "EMBEDDING_DIM L environ = Inr D"
    using assms by (simp add: EMBEDDING_DIM_def)
  fix port assume "PORT L environ = Inr port"
  with dim show "main L environ reqs = Inr (map (dispatch L D) reqs)"
    by (simp add: main_def)
next
  have r: "py_range D = []" using assms(3) by (simp add: py_range_def)
  have gen: "generate_embedding L D t = Inr []" if "encodable t" for t
    using that by (simp add: generate_embedding_cases r)
  { assume "encodable s" then show "generate_embedding L D s = Inr []" by (rule gen) }
  { assume n: "normalize_inputs L (py_or L rv (JDict [])) = Inr inputs"
      and "list_all encodable inputs"
    then have "embed_each (generate_embedding L D) inputs = Inr (replicate (length inputs) [])"
      by (simp add: embed_each_empty_vectors gen list_all_iff)
    with n show "embed L D rv = Inr (replicate (length inputs) [])"
      by (simp add: embed_def) }
  { fix vs v assume e: "embed L D rv = Inr vs" and v: "v \<in> set vs"
    from e obtain xs where xs: "embed_each (generate_embedding L D) xs = Inr vs"
      by (auto simp: embed_def Let_def split: sum.splits)
    from v obtain i where i: "i < length vs" "vs ! i = v" by (auto simp: in_set_conv_nth)
    with embed_each_Inr [OF xs] have "generate_embedding L D (xs ! i) = Inr v" by simp
    then show "v = []"
      by (simp add: generate_embedding_cases r split: if_splits) }
qed

text \<open>
  The environment \<open>EMBEDDING_DIM=-5\<close> on the concrete runtime.
\<close>

theorem negative_dimension_accepted_witness:
  "[ascii ''EMBEDDING_DIM'' \<mapsto> ascii ''-5''] (ascii ''EMBEDDING_DIM'') = Some (ascii ''-5'') \<and>
   int_of_str sample_runtime (ascii ''-5'') = Inr (- 5) \<and> (- 5 :: int) < 0 \<and>
   EMBEDDING_DIM sample_runtime [ascii ''EMBEDDING_DIM'' \<mapsto> ascii ''-5''] = Inr (- 5) \<and>
   generate_embedding sample_runtime (- 5) (ascii ''x'') = Inr [] \<and>
   embed sample_runtime (- 5)
     (JDict [(ascii ''inputs'', JList [JStr (ascii ''x''), JStr (ascii ''y'')])]) = Inr [[], []] \<and>
   main sample_runtime [ascii ''EMBEDDING_DIM'' \<mapsto> ascii ''-5'']
     [POST_embed (JDict [(ascii ''inputs'', JList [JStr (ascii ''x''), JStr (ascii ''y'')])])] =
     Inr [Inr (Embeddings [[], []])]"
proof -
  have p: "PORT sample_runtime [ascii ''EMBEDDING_DIM'' \<mapsto> ascii ''-5''] = Inr 8091"
    by (simp add: PORT_def sample_runtime_def sample_int_def ascii_def)
  have a: "[ascii ''EMBEDDING_DIM'' \<mapsto> ascii ''-5''] (ascii ''EMBEDDING_DIM'') = Some (ascii ''-5'')"
    by simp
  have b: "int_of_str sample_runtime (ascii ''-5'') = Inr (- 5)"
    by (simp add: sample_runtime_def sample_int_values)
  have c: "(- 5 :: int) < 0" by simp
  have n: "normalize_inputs sample_runtime
     (py_or sample_runtime
        (JDict [(ascii ''inputs'', JList [JStr (ascii ''x''), JStr (ascii ''y'')])]) (JDict [])) =
     Inr [ascii ''x'', ascii ''y'']"
    by (simp add: py_or_object normalize_xy)
  have e: "encodable (ascii ''x'')" "encodable (ascii ''y'')"
    by (simp_all add: encodable_def ascii_def is_surrogate_def)
  from negative_dimension_accepted
      [where environ = "[ascii ''EMBEDDING_DIM'' \<mapsto> ascii ''-5'']" and s = "ascii ''x''"
        and rv = "JDict [(ascii ''inputs'', JList [JStr (ascii ''x''), JStr (ascii ''y'')])]"
        and inputs = "[ascii ''x'', ascii ''y'']"
        and reqs = "[POST_embed
          (JDict [(ascii ''inputs'', JList [JStr (ascii ''x''), JStr (ascii ''y'')])])]",
        OF a b c] a b c n e p
  show ?thesis by (simp add: numeral_2_eq_2 dispatch_def)
qed

text \<open>
  For every input string it fails: under \<open>EMBEDDING_DIM=-5\<close> the generator still
  raises on the lone surrogate.
\<close>

theorem negative_dimension_counterexample:
  "EMBEDDING_DIM sample_runtime [ascii ''EMBEDDING_DIM'' \<mapsto> ascii ''-5''] = Inr (- 5) \<and>
   generate_embedding sample_runtime (- 5) [55296] = Inl UnicodeEncodeError"
  by (simp add: EMBEDDING_DIM_def sample_runtime_def sample_int_values surrogate_raises)

end
